theory Spec2Isabelle
  imports Complex_Main "HOL-Library.Product_Lexorder" "HOL-Library.Multiset"
begin

section \<open>The transaction pipeline of \<^verbatim>\<open>process_transactions.py\<close>\<close>

text \<open>
  The program is one function, \<^verbatim>\<open>main\<close>, which threads a pandas data frame
  through a fixed sequence of column assignments. The embedding follows it line by line:
  a frame is the list of its rows, a column assignment maps over the rows, and every
  exception that \<^verbatim>\<open>main\<close> catches (it then returns without writing a file) is the
  outcome \<open>Aborted\<close>.

  Three things are not code of the repository and are modelled as follows.
  \<^item> Reading the CSV file and cleaning the column names (lines 9--13) happen before the
    frame below exists: a \<open>raw_row\<close> is one data row with its \<^verbatim>\<open>date\<close>,
    \<^verbatim>\<open>amount\<close> and \<^verbatim>\<open>type\<close> cells and the cells of all other columns.
  \<^item> How pandas reads one date string is a parameter (\<open>date_parser\<close>) of the model;
    a small concrete parser for all-numeric dates is given for evaluation.
  \<^item> The algorithm behind \<^verbatim>\<open>sort_values\<close> is a parameter (\<open>sorter\<close>) of the
    model, constrained by what pandas documents for the default sort kind.
  Numeric columns are modelled with exact arithmetic (\<open>real\<close>); the rounding of
  \<^verbatim>\<open>float64\<close> is outside the embedding.
\<close>

subsection \<open>Cells, rows and frames\<close>

text \<open>
  A pandas \<^verbatim>\<open>Timestamp\<close>, by its calendar fields; \<open>tod\<close> is the time of day in
  nanoseconds.
\<close>

datatype timestamp = Timestamp (yr: int) (mon: nat) (dy: nat) (tod: nat)

text \<open>
  A cell of the \<^verbatim>\<open>date\<close> column: a string as read from the file, a parsed
  timestamp, or the null marker (\<^verbatim>\<open>NaN\<close> in an object column, \<^verbatim>\<open>NaT\<close> in a
  datetime column).
\<close>

datatype dcell = Raw string | Stamp timestamp | NaT

record ('d, 'a, 't) row =
  date :: 'd
  amount :: 'a
  type :: 't
  others :: "string list"

type_synonym raw_row = "(dcell, real option, string option) row"
type_synonym txn = "(dcell, real, string) row"

record 'd signed_row = "('d, real, string) row" +
  signed_amount :: real

record monthly_row =
  year :: int
  month :: nat
  transaction_count :: nat
  total_income :: real
  total_expense :: real
  net_cashflow :: real

record enriched_row = "(timestamp option) signed_row" +
  year :: "int option"
  month :: "nat option"
  month_name :: "string option"
  day_of_week :: "string option"

record clean_row = enriched_row +
  running_balance :: real

datatype outcome = Saved "clean_row list" "monthly_row list" | Aborted

subsection \<open>Date conversion (lines 22--54)\<close>

text \<open>
  \<^verbatim>\<open>pd.to_datetime(col, format=..., dayfirst=..., errors='coerce')\<close>. The keyword
  \<^verbatim>\<open>format\<close> is either absent (pandas infers one format for the column) or
  \<^verbatim>\<open>'mixed'\<close>. The parser is given the keywords, the strings of the column and the
  string to read. With \<^verbatim>\<open>errors='coerce'\<close> a string that cannot be read becomes
  \<^verbatim>\<open>NaT\<close>; a cell that already is a timestamp or null is returned as it is.
\<close>

datatype format = Inferred | Mixed

type_synonym date_parser = "format \<Rightarrow> bool \<Rightarrow> string list \<Rightarrow> string \<Rightarrow> timestamp option"

fun strings :: "dcell list \<Rightarrow> string list" where
  "strings [] = []"
| "strings (Raw s # cs) = s # strings cs"
| "strings (c # cs) = strings cs"

fun coerce :: "(string \<Rightarrow> timestamp option) \<Rightarrow> dcell \<Rightarrow> dcell" where
  "coerce p (Raw s) = (case p s of Some t \<Rightarrow> Stamp t | None \<Rightarrow> NaT)"
| "coerce p (Stamp t) = Stamp t"
| "coerce p NaT = NaT"

definition to_datetime :: "date_parser \<Rightarrow> format \<Rightarrow> bool \<Rightarrow> dcell list \<Rightarrow> dcell list" where
  "to_datetime parse fmt dayfirst col = map (coerce (parse fmt dayfirst (strings col))) col"

fun isnull :: "dcell \<Rightarrow> bool" where
  "isnull NaT = True"
| "isnull c = False"

text \<open>\<^verbatim>\<open>col[mask]\<close> and \<^verbatim>\<open>col[mask] = values\<close> of \<^verbatim>\<open>df.loc\<close>.\<close>

fun loc_get :: "bool list \<Rightarrow> 'a list \<Rightarrow> 'a list" where
  "loc_get (m # ms) (c # cs) = (if m then c # loc_get ms cs else loc_get ms cs)"
| "loc_get ms cs = []"

fun loc_set :: "bool list \<Rightarrow> 'a list \<Rightarrow> 'a list \<Rightarrow> 'a list" where
  "loc_set (True # ms) (c # cs) (v # vs) = v # loc_set ms cs vs"
| "loc_set (m # ms) (c # cs) vs = c # loc_set ms cs vs"
| "loc_set ms cs vs = cs"

text \<open>
  Lines 42--49, the alternative parse: the null cells of the column are handed to
  \<^verbatim>\<open>to_datetime\<close> once more and written back.
\<close>

definition alternative_parse :: "date_parser \<Rightarrow> dcell list \<Rightarrow> dcell list" where
  "alternative_parse parse col =
     (let null_dates = map isnull col
      in loc_set null_dates col (to_datetime parse Inferred False (loc_get null_dates col)))"

text \<open>
  Line 22 and the block of lines 29--49. Line 22 converts the column with the default
  keywords; line 30 converts the result with \<^verbatim>\<open>format='mixed', dayfirst=True\<close>; when
  a null is left (line 34), the step \<open>alt\<close> of lines 42--49 follows. No call inside the
  \<^verbatim>\<open>try\<close> raises under \<^verbatim>\<open>errors='coerce'\<close>, so the handler of lines 51--54 has
  no branch here.
\<close>

definition convert_dates ::
  "(date_parser \<Rightarrow> dcell list \<Rightarrow> dcell list) \<Rightarrow> date_parser \<Rightarrow> dcell list \<Rightarrow> dcell list" where
  "convert_dates alt parse col0 =
     (let col1 = to_datetime parse Inferred False col0;
          col2 = to_datetime parse Mixed True col1
      in if list_ex isnull col2 then alt parse col2 else col2)"

subsection \<open>Filtering, type normalisation and signing (lines 58--73)\<close>

text \<open>
  \<^verbatim>\<open>df.dropna(subset=['date', 'amount', 'type'])\<close> keeps, in order, the rows whose three
  cells are all non-null. From here on \<^verbatim>\<open>amount\<close> and \<^verbatim>\<open>type\<close> hold values.
\<close>

definition dropna_row :: "raw_row \<Rightarrow> txn option" where
  "dropna_row r =
     (case (amount r, type r) of
        (Some a, Some s) \<Rightarrow>
          (if isnull (date r) then None
           else Some \<lparr>date = date r, amount = a, type = s, others = others r\<rparr>)
      | _ \<Rightarrow> None)"

definition dropna :: "raw_row list \<Rightarrow> txn list" where
  "dropna df = List.map_filter dropna_row df"

text \<open>
  Python's \<^verbatim>\<open>str.strip()\<close> and \<^verbatim>\<open>str.title()\<close> on ASCII text. \<^verbatim>\<open>title\<close>
  upper-cases a letter that follows a character without case and lower-cases a letter that
  follows a letter.
\<close>

definition is_space :: "char \<Rightarrow> bool" where
  "is_space c = (let n = (of_char c :: nat) in (9 \<le> n \<and> n \<le> 13) \<or> (28 \<le> n \<and> n \<le> 32))"

definition is_lower :: "char \<Rightarrow> bool" where
  "is_lower c = (let n = (of_char c :: nat) in 97 \<le> n \<and> n \<le> 122)"

definition is_upper :: "char \<Rightarrow> bool" where
  "is_upper c = (let n = (of_char c :: nat) in 65 \<le> n \<and> n \<le> 90)"

definition upper :: "char \<Rightarrow> char" where
  "upper c = (if is_lower c then char_of ((of_char c :: nat) - 32) else c)"

definition lower :: "char \<Rightarrow> char" where
  "lower c = (if is_upper c then char_of ((of_char c :: nat) + 32) else c)"

definition strip :: "string \<Rightarrow> string" where
  "strip s = rev (dropWhile is_space (rev (dropWhile is_space s)))"

fun title_from :: "bool \<Rightarrow> string \<Rightarrow> string" where
  "title_from previous_is_cased [] = []"
| "title_from previous_is_cased (c # cs) =
     (if is_lower c then (if previous_is_cased then c else upper c) # title_from True cs
      else if is_upper c then (if previous_is_cased then lower c else c) # title_from True cs
      else c # title_from False cs)"

definition title :: "string \<Rightarrow> string" where
  "title s = title_from False s"

text \<open>
  Line 68 uses the \<^verbatim>\<open>.str\<close> accessor, which raises \<^verbatim>\<open>AttributeError\<close> on a column
  that is not of strings. \<^verbatim>\<open>read_csv\<close> gives a column without any value the dtype
  \<^verbatim>\<open>float64\<close> when the file has data rows, and \<^verbatim>\<open>object\<close> when it has none;
  \<^verbatim>\<open>dropna\<close> keeps the dtype.
\<close>

definition str_accessor :: "string option list \<Rightarrow> bool" where
  "str_accessor col = (col = [] \<or> list_ex (\<lambda>c. c \<noteq> None) col)"

definition normalize_type :: "txn \<Rightarrow> txn" where
  "normalize_type r = r\<lparr>type := title (strip (type r))\<rparr>"

text \<open>Lines 69--73: \<^verbatim>\<open>np.where(type.eq('Expense'), -amount.abs(), amount.abs())\<close>.\<close>

definition sign :: "txn \<Rightarrow> dcell signed_row" where
  "sign r =
     \<lparr>date = date r, amount = amount r, type = type r, others = others r,
      signed_amount = (if type r = ''Expense'' then - \<bar>amount r\<bar> else \<bar>amount r\<bar>)\<rparr>"

subsection \<open>The dtype check and the date features (lines 76--94)\<close>

text \<open>
  \<^verbatim>\<open>is_datetime64_any_dtype\<close>: the column holds no unparsed string. When it does,
  lines 79--86 convert once more and return from \<^verbatim>\<open>main\<close> if every cell is null
  (the \<^verbatim>\<open>ValueError\<close> is raised and caught on the spot).
\<close>

definition is_datetime64_any_dtype :: "dcell list \<Rightarrow> bool" where
  "is_datetime64_any_dtype col = list_all (\<lambda>c. case c of Raw s \<Rightarrow> False | _ \<Rightarrow> True) col"

definition set_date :: "('d, 'z) signed_row_scheme \<Rightarrow> dcell \<Rightarrow> dcell signed_row" where
  "set_date r c =
     \<lparr>date = c, amount = amount r, type = type r, others = others r,
      signed_amount = signed_amount r\<rparr>"

definition verify_dates :: "date_parser \<Rightarrow> dcell signed_row list \<Rightarrow> dcell signed_row list option" where
  "verify_dates parse df =
     (if \<not> is_datetime64_any_dtype (map date df)
      then (let col = to_datetime parse Inferred False (map date df)
            in if list_all isnull col then None else Some (map2 set_date df col))
      else Some df)"

text \<open>
  The calendar of \<^verbatim>\<open>dt.strftime('%B')\<close> and \<^verbatim>\<open>dt.day_name()\<close>: the day number
  counts days from 1970-01-01, a Thursday.
\<close>

definition month_names :: "string list" where
  "month_names = [''January'', ''February'', ''March'', ''April'', ''May'', ''June'', ''July'',
     ''August'', ''September'', ''October'', ''November'', ''December'']"

definition day_names :: "string list" where
  "day_names = [''Sunday'', ''Monday'', ''Tuesday'', ''Wednesday'', ''Thursday'', ''Friday'',
     ''Saturday'']"

definition days_from_civil :: "int \<Rightarrow> nat \<Rightarrow> nat \<Rightarrow> int" where
  "days_from_civil y m d =
     (let y1 = (if m \<le> 2 then y - 1 else y);
          era = y1 div 400;
          yoe = y1 - era * 400;
          doy = (153 * (if 2 < m then int m - 3 else int m + 9) + 2) div 5 + int d - 1;
          doe = yoe * 365 + yoe div 4 - yoe div 100 + doy
      in era * 146097 + doe - 719468)"

definition day_name :: "timestamp \<Rightarrow> string" where
  "day_name t = day_names ! nat ((days_from_civil (yr t) (mon t) (dy t) + 4) mod 7)"

definition strftime_B :: "timestamp \<Rightarrow> string" where
  "strftime_B t = month_names ! ((mon t - 1) mod 12)"

text \<open>
  Lines 91--94. The \<^verbatim>\<open>.dt\<close> accessor raises on a column that is not of datetimes (the
  handler of line 116 returns from \<^verbatim>\<open>main\<close>); on a datetime column a null date gives
  null features.
\<close>

definition date_features :: "dcell signed_row \<Rightarrow> enriched_row" where
  "date_features r =
     (case date r of
        Stamp t \<Rightarrow>
          \<lparr>date = Some t, amount = amount r, type = type r, others = others r,
           signed_amount = signed_amount r,
           year = Some (yr t), month = Some (mon t),
           month_name = Some (strftime_B t), day_of_week = Some (day_name t)\<rparr>
      | _ \<Rightarrow>
          \<lparr>date = None, amount = amount r, type = type r, others = others r,
           signed_amount = signed_amount r,
           year = None, month = None, month_name = None, day_of_week = None\<rparr>)"

definition add_date_features :: "dcell signed_row list \<Rightarrow> enriched_row list option" where
  "add_date_features df =
     (if is_datetime64_any_dtype (map date df) then Some (map date_features df) else None)"

subsection \<open>Sorting and the running balance (lines 97--100)\<close>

text \<open>
  \<^verbatim>\<open>df.sort_values('date')\<close> is called with the default \<^verbatim>\<open>kind='quicksort'\<close> and
  the default \<^verbatim>\<open>na_position='last'\<close>. pandas documents the result as the rows in
  ascending order of the column, nulls last, and documents only the kinds
  \<^verbatim>\<open>'mergesort'\<close> and \<^verbatim>\<open>'stable'\<close> as stable. The sort is therefore a parameter of
  the model, and \<open>sort_values_spec\<close> is what the default kind promises.
\<close>

type_synonym sort_key = "nat \<times> int \<times> nat \<times> nat \<times> nat"

fun stamp_key :: "timestamp option \<Rightarrow> sort_key" where
  "stamp_key (Some t) = (0, yr t, mon t, dy t, tod t)"
| "stamp_key None = (1, 0, 0, 0, 0)"

definition date_key :: "('z) enriched_row_scheme \<Rightarrow> sort_key" where
  "date_key r = stamp_key (date r)"

type_synonym sorter = "enriched_row list \<Rightarrow> enriched_row list"

definition sort_values_spec :: "sorter \<Rightarrow> bool" where
  "sort_values_spec srt = (\<forall>df. sorted (map date_key (srt df)) \<and> mset (srt df) = mset df)"

text \<open>\<^verbatim>\<open>Series.cumsum()\<close>: one pass, adding each value to the sum so far.\<close>

fun cumsum_from :: "real \<Rightarrow> real list \<Rightarrow> real list" where
  "cumsum_from acc [] = []"
| "cumsum_from acc (x # xs) = (acc + x) # cumsum_from (acc + x) xs"

definition cumsum :: "real list \<Rightarrow> real list" where
  "cumsum xs = cumsum_from 0 xs"

definition with_balance :: "enriched_row \<Rightarrow> real \<Rightarrow> clean_row" where
  "with_balance r b =
     \<lparr>date = date r, amount = amount r, type = type r, others = others r,
      signed_amount = signed_amount r,
      year = year r, month = month r, month_name = month_name r, day_of_week = day_of_week r,
      running_balance = b\<rparr>"

definition add_running_balance :: "enriched_row list \<Rightarrow> clean_row list" where
  "add_running_balance df = map2 with_balance df (cumsum (map signed_amount df))"

subsection \<open>The monthly summary (lines 104--110)\<close>

text \<open>
  \<^verbatim>\<open>groupby(['year', 'month'], as_index=False)\<close> sorts the distinct keys and leaves
  out rows with a null key. The four aggregations read the \<^verbatim>\<open>signed_amount\<close> values of
  the group, in frame order; the two lambdas are transcribed with their guards.
\<close>

definition group_key :: "('z) enriched_row_scheme \<Rightarrow> (int \<times> nat) option" where
  "group_key r = (case (year r, month r) of (Some y, Some m) \<Rightarrow> Some (y, m) | _ \<Rightarrow> None)"

definition group_keys :: "('z) enriched_row_scheme list \<Rightarrow> (int \<times> nat) list" where
  "group_keys df = sort (remdups (List.map_filter group_key df))"

definition group_values :: "('z) enriched_row_scheme list \<Rightarrow> int \<times> nat \<Rightarrow> real list" where
  "group_values df k = map signed_amount (filter (\<lambda>r. group_key r = Some k) df)"

definition income_of :: "real list \<Rightarrow> real" where
  "income_of s = (if s \<noteq> [] then sum_list (filter (\<lambda>x. 0 < x) s) else 0)"

definition expense_of :: "real list \<Rightarrow> real" where
  "expense_of s =
     (if s \<noteq> [] \<and> list_ex (\<lambda>x. x < 0) s then - sum_list (filter (\<lambda>x. x < 0) s) else 0)"

definition agg :: "int \<times> nat \<Rightarrow> real list \<Rightarrow> monthly_row" where
  "agg k s =
     \<lparr>monthly_row.year = fst k, monthly_row.month = snd k, transaction_count = length s,
      total_income = income_of s, total_expense = expense_of s, net_cashflow = sum_list s\<rparr>"

definition monthly_summary :: "('z) enriched_row_scheme list \<Rightarrow> monthly_row list" where
  "monthly_summary df = map (\<lambda>k. agg k (group_values df k)) (group_keys df)"

subsection \<open>The pipeline\<close>

text \<open>
  \<^verbatim>\<open>main\<close>, from the frame read at line 9 to the two frames written at lines 128 and
  133. \<open>pipeline\<close> takes the step of lines 42--49 as an argument, so that the pipeline
  without that step can be written down as well.
\<close>

definition set_raw_date :: "raw_row \<Rightarrow> dcell \<Rightarrow> raw_row" where
  "set_raw_date r c = r\<lparr>date := c\<rparr>"

definition pipeline ::
  "(date_parser \<Rightarrow> dcell list \<Rightarrow> dcell list) \<Rightarrow> date_parser \<Rightarrow> sorter \<Rightarrow> raw_row list \<Rightarrow> outcome" where
  "pipeline alt parse sort_values df0 =
     (let df1 = map2 set_raw_date df0 (convert_dates alt parse (map date df0));
          df2 = dropna df1
      in if \<not> str_accessor (map type df1) then Aborted
         else (case verify_dates parse (map sign (map normalize_type df2)) of
                 None \<Rightarrow> Aborted
               | Some df3 \<Rightarrow>
                   (case add_date_features df3 of
                      None \<Rightarrow> Aborted
                    | Some df4 \<Rightarrow>
                        (let df5 = add_running_balance (sort_values df4)
                         in Saved df5 (monthly_summary df5)))))"

definition main :: "date_parser \<Rightarrow> sorter \<Rightarrow> raw_row list \<Rightarrow> outcome" where
  "main = pipeline alternative_parse"

definition main_without_alternative :: "date_parser \<Rightarrow> sorter \<Rightarrow> raw_row list \<Rightarrow> outcome" where
  "main_without_alternative = pipeline (\<lambda>parse col. col)"

subsection \<open>Instances of the two parameters\<close>

text \<open>
  A parser for all-numeric dates, \<^verbatim>\<open>A/B/YYYY\<close> and \<^verbatim>\<open>YYYY-MM-DD\<close>, one value at
  a time. In \<^verbatim>\<open>A/B/YYYY\<close> pandas reads the month first unless \<^verbatim>\<open>dayfirst=True\<close>,
  and falls back to the other order when the preferred one is no calendar date. Every
  other string is unreadable.
\<close>

definition is_digit :: "char \<Rightarrow> bool" where
  "is_digit c = (let n = (of_char c :: nat) in 48 \<le> n \<and> n \<le> 57)"

definition nat_of_digits :: "string \<Rightarrow> nat option" where
  "nat_of_digits s =
     (if s \<noteq> [] \<and> list_all is_digit s
      then Some (foldl (\<lambda>n c. 10 * n + ((of_char c :: nat) - 48)) 0 s) else None)"

fun split_on :: "char \<Rightarrow> string \<Rightarrow> string list" where
  "split_on sep [] = [[]]"
| "split_on sep (c # cs) =
     (if c = sep then [] # split_on sep cs
      else (case split_on sep cs of [] \<Rightarrow> [[c]] | w # ws \<Rightarrow> (c # w) # ws))"

definition leap_year :: "nat \<Rightarrow> bool" where
  "leap_year y = (if y mod 100 = 0 then y mod 400 = 0 else y mod 4 = 0)"

definition days_in_month :: "nat \<Rightarrow> nat \<Rightarrow> nat" where
  "days_in_month y m =
     (if m = 2 then (if leap_year y then 29 else 28)
      else if m = 4 \<or> m = 6 \<or> m = 9 \<or> m = 11 then 30 else 31)"

definition valid_date :: "nat \<Rightarrow> nat \<Rightarrow> nat \<Rightarrow> bool" where
  "valid_date y m d = (1 \<le> m \<and> m \<le> 12 \<and> 1 \<le> d \<and> d \<le> days_in_month y m)"

definition civil :: "nat \<Rightarrow> nat \<Rightarrow> nat \<Rightarrow> timestamp option" where
  "civil y m d = (if valid_date y m d then Some (Timestamp (int y) m d 0) else None)"

definition parse_numeric_date :: date_parser where
  "parse_numeric_date fmt dayfirst col s =
     (case map nat_of_digits (split_on (CHR ''/'') s) of
        [Some a, Some b, Some y] \<Rightarrow>
          (let m = (if dayfirst then b else a); d = (if dayfirst then a else b)
           in (case civil y m d of Some t \<Rightarrow> Some t | None \<Rightarrow> civil y d m))
      | _ \<Rightarrow>
          (case map nat_of_digits (split_on (CHR ''-'') s) of
             [Some y, Some m, Some d] \<Rightarrow> civil y m d
           | _ \<Rightarrow> None))"

text \<open>
  Two sorts that both return the rows in ascending date order: an insertion sort, which
  is stable, and the same sort run on the reversed frame, which is not.
\<close>

definition stable_sort :: sorter where
  "stable_sort df = sort_key date_key df"


subsection \<open>Names for intermediate frames\<close>

text \<open>
  The frame after \<^verbatim>\<open>dropna\<close> when the date column is the one line 22 produces, and
  the same frame with the type normalised, the amount signed and the date features added:
  the frame that line 97 sorts.
\<close>

definition filtered :: "date_parser \<Rightarrow> raw_row list \<Rightarrow> txn list" where
  "filtered parse df0 =
     dropna (map2 set_raw_date df0 (to_datetime parse Inferred False (map date df0)))"

definition enriched :: "date_parser \<Rightarrow> raw_row list \<Rightarrow> enriched_row list" where
  "enriched parse df0 = map date_features (map sign (map normalize_type (filtered parse df0)))"

definition drop_balance :: "clean_row \<Rightarrow> enriched_row" where
  "drop_balance r =
     \<lparr>date = date r, amount = amount r, type = type r, others = others r,
      signed_amount = signed_amount r,
      year = year r, month = month r, month_name = month_name r, day_of_week = day_of_week r\<rparr>"

subsection \<open>Running the pipeline on its own clean output\<close>




subsection \<open>Reading an outcome, and sample frames\<close>

fun clean_of :: "outcome \<Rightarrow> clean_row list" where
  "clean_of (Saved clean ms) = clean"
| "clean_of Aborted = []"









section \<open>Properties\<close>

subsection \<open>Date conversion\<close>

lemma coerce_dtype: "(case coerce p c of Raw s \<Rightarrow> False | _ \<Rightarrow> True)"
  by (cases c) (auto split: option.splits)

lemma coerce_cases: "coerce p c = NaT \<or> (\<exists>t. coerce p c = Stamp t)"
  by (cases c) (auto split: option.splits)

lemma coerce_id: "(case c of Raw s \<Rightarrow> False | _ \<Rightarrow> True) \<Longrightarrow> coerce p c = c"
  by (cases c) auto

lemma to_datetime_dtype: "is_datetime64_any_dtype (to_datetime parse fmt dayfirst col)"
  by (simp add: is_datetime64_any_dtype_def to_datetime_def list_all_iff coerce_dtype)

lemma to_datetime_id:
  "is_datetime64_any_dtype col \<Longrightarrow> to_datetime parse fmt dayfirst col = col"
  by (simp add: is_datetime64_any_dtype_def to_datetime_def list_all_iff coerce_id map_idI)

lemma length_to_datetime: "length (to_datetime parse fmt dayfirst col) = length col"
  by (simp add: to_datetime_def)

lemma loc_get_dtype:
  "is_datetime64_any_dtype col \<Longrightarrow> is_datetime64_any_dtype (loc_get ms col)"
  by (induction ms col rule: loc_get.induct) (auto simp: is_datetime64_any_dtype_def)

lemma loc_set_loc_get: "loc_set ms col (loc_get ms col) = col"
  by (induction ms col rule: loc_get.induct) auto

lemma alternative_parse_id:
  "is_datetime64_any_dtype col \<Longrightarrow> alternative_parse parse col = col"
  by (simp add: alternative_parse_def Let_def to_datetime_id loc_get_dtype loc_set_loc_get)


subsection \<open>The frame that reaches the sort\<close>

lemma map2_map_map: "map2 f xs (map g (map h xs)) = map (\<lambda>x. f x (g (h x))) xs"
  by (induction xs) auto

lemma resolved_rows:
  "map2 set_raw_date df (to_datetime parse fmt dayfirst (map date df)) =
     map (\<lambda>r. r\<lparr>date := coerce (parse fmt dayfirst (strings (map date df))) (date r)\<rparr>) df"
  unfolding to_datetime_def by (simp only: map2_map_map set_raw_date_def)

lemma dropna_row_Some:
  "dropna_row r = Some x \<Longrightarrow>
     date x = date r \<and> \<not> isnull (date r) \<and> amount r = Some (amount x) \<and>
     type r = Some (type x) \<and> others x = others r"
  by (auto simp: dropna_row_def split: option.splits if_splits)

lemma set_dropna: "set (dropna df) = {x. \<exists>r \<in> set df. dropna_row r = Some x}"
  unfolding dropna_def by (induction df) (auto split: option.splits)

lemma filtered_dates:
  assumes "x \<in> set (filtered parse df0)"
  shows "\<exists>t. date x = Stamp t"
proof -
  let ?p = "parse Inferred False (strings (map date df0))"
  from assms obtain r where x: "dropna_row (r\<lparr>date := coerce ?p (date r)\<rparr>) = Some x"
    unfolding filtered_def resolved_rows set_dropna by auto
  from dropna_row_Some[OF x] have "date x = coerce ?p (date r)" and "\<not> isnull (date x)"
    by auto
  then show ?thesis
    using coerce_cases[of ?p "date r"] by auto
qed

lemma signed_dates:
  "is_datetime64_any_dtype (map date (map sign (map normalize_type (filtered parse df0))))"
  by (auto simp: is_datetime64_any_dtype_def list_all_iff sign_def normalize_type_def
      dest!: filtered_dates)

lemma type_set_raw_date:
  "length col = length df \<Longrightarrow> map type (map2 set_raw_date df col) = map type df"
  by (induction df col rule: list_induct2') (auto simp: set_raw_date_def)

text \<open>
  The repair block of lines 77--86 and the handler of lines 116--120 are never entered:
  the column is a datetime column from line 22 on. What is left of \<^verbatim>\<open>main\<close> is one
  test and the straight-line computation.
\<close>

lemma pipeline_eq:
  assumes "\<And>col. is_datetime64_any_dtype col \<Longrightarrow> alt parse col = col"
  shows "pipeline alt parse srt df0 =
     (if str_accessor (map type df0)
      then Saved (add_running_balance (srt (enriched parse df0)))
             (monthly_summary (add_running_balance (srt (enriched parse df0))))
      else Aborted)"
proof -
  let ?signed = "map sign (map normalize_type (filtered parse df0))"
  have c: "convert_dates alt parse (map date df0) = to_datetime parse Inferred False (map date df0)"
    by (simp add: convert_dates_def Let_def to_datetime_id to_datetime_dtype assms)
  have t: "map type (map2 set_raw_date df0 (to_datetime parse Inferred False (map date df0)))
      = map type df0"
    by (rule type_set_raw_date) (simp add: length_to_datetime)
  have v: "verify_dates parse ?signed = Some ?signed"
    by (simp only: verify_dates_def signed_dates not_True_eq_False if_False)
  have f: "add_date_features ?signed = Some (enriched parse df0)"
    by (simp only: add_date_features_def signed_dates if_True enriched_def)
  show ?thesis
    unfolding pipeline_def c Let_def t filtered_def[symmetric] v option.case f by simp
qed

lemma main_eq:
  "main parse srt df0 =
     (if str_accessor (map type df0)
      then Saved (add_running_balance (srt (enriched parse df0)))
             (monthly_summary (add_running_balance (srt (enriched parse df0))))
      else Aborted)"
  unfolding main_def by (rule pipeline_eq) (rule alternative_parse_id)

lemma main_without_alternative_eq:
  "main_without_alternative parse srt df0 =
     (if str_accessor (map type df0)
      then Saved (add_running_balance (srt (enriched parse df0)))
             (monthly_summary (add_running_balance (srt (enriched parse df0))))
      else Aborted)"
  unfolding main_without_alternative_def by (rule pipeline_eq) simp

subsection \<open>The two sorts\<close>

lemma stable_sort_spec: "sort_values_spec stable_sort"
  by (simp add: sort_values_spec_def stable_sort_def)


lemma sort_values_spec_Nil: "sort_values_spec srt \<Longrightarrow> srt [] = []"
  by (metis sort_values_spec_def mset_zero_iff)

subsection \<open>The running balance\<close>

lemma length_cumsum_from: "length (cumsum_from acc xs) = length xs"
  by (induction xs arbitrary: acc) auto

lemma cumsum_from_nth:
  "i < length xs \<Longrightarrow> cumsum_from acc xs ! i = acc + sum_list (take (Suc i) xs)"
proof (induction xs arbitrary: acc i)
  case Nil
  then show ?case by simp
next
  case (Cons x xs)
  then show ?case by (cases i) (simp_all add: add.assoc)
qed

lemma length_add_running_balance: "length (add_running_balance df) = length df"
  by (simp add: add_running_balance_def cumsum_def length_cumsum_from)

lemma add_running_balance_nth:
  "i < length df \<Longrightarrow>
     add_running_balance df ! i =
       with_balance (df ! i) (sum_list (take (Suc i) (map signed_amount df)))"
  by (simp add: add_running_balance_def cumsum_def length_cumsum_from cumsum_from_nth)

lemma drop_balance_with_balance: "drop_balance (with_balance r b) = r"
  by (simp add: drop_balance_def with_balance_def)

lemma map_drop_balance: "map drop_balance (add_running_balance df) = df"
  by (rule nth_equalityI)
    (simp_all add: length_add_running_balance add_running_balance_nth drop_balance_with_balance)






lemma main_Saved:
  assumes "main parse srt df = Saved clean ms"
  shows "clean = add_running_balance (srt (enriched parse df))" and "ms = monthly_summary clean"
  using assms by (auto simp: main_eq split: if_splits)


subsection \<open>The monthly aggregation\<close>









subsection \<open>Rows of the clean frame\<close>











subsection \<open>Sorted permutations\<close>



text \<open>Under the stable sort, rows with one date keep the order they had after filtering.\<close>

lemma stable_sort_keeps_ties:
  assumes "main parse stable_sort df = Saved clean ms"
  shows "filter (\<lambda>e. date_key e = k) (map drop_balance clean)
     = filter (\<lambda>e. date_key e = k) (enriched parse df)"
  by (simp add: main_Saved(1)[OF assms] map_drop_balance stable_sort_def sort_key_stable)

subsection \<open>The second run\<close>












subsection \<open>The sample run\<close>




section \<open>The claims\<close>

text \<open>
  C1. The date string \<^verbatim>\<open>03/04/2024\<close>. Read with the keywords of line 30
  (\<^verbatim>\<open>dayfirst=True\<close>) it is 3 April 2024; but line 22 has read it before, month
  first, so the date block yields 4 March 2024 and that is the date of the record in the
  clean frame. (By \<open>convert_dates_alternative\<close> the block never reads a string day first,
  whatever the parser.)
\<close>

theorem ambiguous_date_read_month_first:
  "to_datetime parse_numeric_date Mixed True [Raw ''03/04/2024''] = [Stamp (Timestamp 2024 4 3 0)]
   \<and> convert_dates alternative_parse parse_numeric_date [Raw ''03/04/2024'']
       = [Stamp (Timestamp 2024 3 4 0)]
   \<and> map date (clean_of (main parse_numeric_date stable_sort
        [\<lparr>date = Raw ''03/04/2024'', amount = Some 100, type = Some ''Income'', others = []\<rparr>]))
       = [Some (Timestamp 2024 3 4 0)]"
  by code_simp

text \<open>
  C2. A file in which no date can be resolved (one unreadable string, one empty cell): the
  run is not aborted, it saves an empty clean frame and an empty summary, which is also
  the outcome for a file whose only row is dropped for its missing amount.
\<close>

theorem unresolvable_dates_saved_empty:
  "main parse_numeric_date stable_sort
     [\<lparr>date = Raw ''not a date'', amount = Some 10, type = Some ''Income'', others = []\<rparr>,
      \<lparr>date = NaT, amount = Some 5, type = Some ''Expense'', others = []\<rparr>]
     = Saved [] []
   \<and> main parse_numeric_date stable_sort
     [\<lparr>date = Raw ''2024-01-05'', amount = None, type = Some ''Income'', others = []\<rparr>]
     = Saved [] []"
  by code_simp














text \<open>
  C8. A file without data rows: the run saves an empty clean frame and an empty monthly
  summary, whatever the parser and for every sort that meets \<open>sort_values_spec\<close>.
\<close>

theorem empty_input_saved:
  "sort_values_spec srt \<Longrightarrow> main parse srt [] = Saved [] []"
  by (simp add: main_eq str_accessor_def enriched_def filtered_def dropna_def to_datetime_def
      sort_values_spec_Nil add_running_balance_def cumsum_def monthly_summary_def
      group_keys_def)

theorem empty_input_saved_witness:
  "sort_values_spec stable_sort \<and> main parse_numeric_date stable_sort [] = Saved [] []"
  using empty_input_saved [OF stable_sort_spec, of parse_numeric_date]
  by (simp add: stable_sort_spec)

text \<open>
  C9. The alternative parse of lines 42--49 changes nothing. It is handed the column that
  lines 22 and 30 produced, in which every cell is a timestamp or null, and returns that
  column cell for cell (so the rows with a resolved date are the same before and after);
  \<^verbatim>\<open>main\<close> and the pipeline without the step give the same outcome on every input.
\<close>

theorem alternative_parse_redundant:
  "alternative_parse parse (to_datetime parse Mixed True (to_datetime parse Inferred False col))
     = to_datetime parse Mixed True (to_datetime parse Inferred False col)
   \<and> main parse srt df = main_without_alternative parse srt df"
  by (simp add: alternative_parse_id to_datetime_dtype main_eq main_without_alternative_eq)



end
